theory Spec2Isabelle
  imports Complex_Main "HOL-Library.Word"
begin

section \<open>Numbers and math utilities (utils.js)\<close>

text \<open>
  JavaScript numbers are modelled as real numbers: rounding of the IEEE doubles is not
  modelled. The one non-finite value the breathing code can produce from finite inputs
  is \<open>NaN\<close>, so the two fields that can hold it (\<open>targetIntensity\<close> and
  \<open>state.intensity\<close>) have the type \<open>jsnum\<close>, and the operations applied to them
  propagate \<open>NaN\<close> as JavaScript does: arithmetic with \<open>NaN\<close> is \<open>NaN\<close>,
  \<open>Math.min\<close> and \<open>Math.max\<close> return \<open>NaN\<close>, every comparison with \<open>NaN\<close> is false.
\<close>

definition lerp :: "real \<Rightarrow> real \<Rightarrow> real \<Rightarrow> real" where
  "lerp start finish t = start + (finish - start) * t"

definition clamp :: "real \<Rightarrow> real \<Rightarrow> real \<Rightarrow> real" where
  "clamp v lo hi = min (max v lo) hi"

definition easeInOutSine :: "real \<Rightarrow> real" where
  "easeInOutSine t = - (cos (pi * t) - 1) / 2"

datatype jsnum = Num real | NaN

fun num_sub :: "jsnum \<Rightarrow> jsnum \<Rightarrow> jsnum" where
  "num_sub (Num a) (Num b) = Num (a - b)"
| "num_sub _ _ = NaN"

fun num_add :: "jsnum \<Rightarrow> jsnum \<Rightarrow> jsnum" where
  "num_add (Num a) (Num b) = Num (a + b)"
| "num_add _ _ = NaN"

fun num_scale :: "jsnum \<Rightarrow> real \<Rightarrow> jsnum" where
  "num_scale (Num a) c = Num (a * c)"
| "num_scale NaN c = NaN"

fun num_abs :: "jsnum \<Rightarrow> jsnum" where
  "num_abs (Num a) = Num \<bar>a\<bar>"
| "num_abs NaN = NaN"

fun num_clamp :: "jsnum \<Rightarrow> real \<Rightarrow> real \<Rightarrow> jsnum" where
  "num_clamp (Num v) lo hi = Num (clamp v lo hi)"
| "num_clamp NaN lo hi = NaN"

fun num_gt :: "jsnum \<Rightarrow> real \<Rightarrow> bool" where
  "num_gt (Num v) c = (v > c)"
| "num_gt NaN c = False"

section \<open>Breathing detection (breathing.js)\<close>

datatype BreathPhase = INHALE | HOLD_IN | EXHALE | HOLD_OUT

text \<open>
  The mode is one of the strings \<open>'manual'\<close>, \<open>'mic'\<close>, \<open>'guided'\<close>; no other value
  is ever assigned to it.
\<close>

datatype breath_mode = Manual | Mic | Guided

record breath_state =
  phase :: BreathPhase
  intensity :: jsnum
  duration :: real
  totalCycles :: nat
  isActive :: bool

record pattern =
  inhale :: real
  holdIn :: real
  exhale :: real
  holdOut :: real

text \<open>
  The detector. \<open>micDataArray\<close> is \<open>None\<close> for \<open>null\<close>; the analyser is created
  together with it by \<open>initMicrophone\<close>, so one field stands for both.
  \<open>smoothingFactor\<close> is assigned once by the constructor and never written again: it is
  a constant here.
\<close>

record detector =
  mode :: breath_mode
  state :: breath_state
  isPressed :: bool
  targetIntensity :: jsnum
  micDataArray :: "nat list option"
  guidedPattern :: "pattern option"
  guidedTimer :: real

definition smoothingFactor :: real where
  "smoothingFactor = 0.15"

text \<open>
  The listeners are called in the order of the \<open>_emitEvent\<close> calls: an update returns
  the list of the events it emitted, oldest first.
\<close>

datatype event = PhaseChange BreathPhase | CycleComplete

definition BreathingDetector_new :: detector where
  "BreathingDetector_new =
     \<lparr> mode = Manual,
       state = \<lparr> phase = EXHALE, intensity = Num 0.5, duration = 0,
                 totalCycles = 0, isActive = False \<rparr>,
       isPressed = False,
       targetIntensity = Num 0.5,
       micDataArray = None,
       guidedPattern = None,
       guidedTimer = 0 \<rparr>"

text \<open>The key, mouse and touch handlers of \<open>_setupManualControls\<close>.\<close>

definition BreathingDetector_handlePointerDown :: "detector \<Rightarrow> detector" where
  "BreathingDetector_handlePointerDown d =
     (if mode d = Manual then d\<lparr>isPressed := True, targetIntensity := Num 1\<rparr> else d)"

definition BreathingDetector_handlePointerUp :: "detector \<Rightarrow> detector" where
  "BreathingDetector_handlePointerUp d =
     (if mode d = Manual then d\<lparr>isPressed := False, targetIntensity := Num 0\<rparr> else d)"

text \<open>
  \<open>initMicrophone\<close>: the argument says whether the browser granted the microphone;
  the result carries the boolean the source returns. The array has
  \<open>frequencyBinCount = fftSize / 2 = 128\<close> entries, all zero at first.
\<close>

definition BreathingDetector_initMicrophone :: "bool \<Rightarrow> detector \<Rightarrow> detector \<times> bool" where
  "BreathingDetector_initMicrophone granted d =
     (if granted then (d\<lparr>micDataArray := Some (replicate 128 0), mode := Mic\<rparr>, True)
      else (d\<lparr>mode := Manual\<rparr>, False))"

text \<open>
  \<open>_updateFromMicrophone\<close>. \<open>freq\<close> is what \<open>getByteFrequencyData\<close> writes into the
  array in this tick. On an empty array the source computes \<open>0 / 0\<close>, which is \<open>NaN\<close>.
\<close>

definition BreathingDetector_updateFromMicrophone :: "detector \<Rightarrow> nat list \<Rightarrow> detector" where
  "BreathingDetector_updateFromMicrophone d freq =
     (case micDataArray d of
        None \<Rightarrow> d
      | Some _ \<Rightarrow>
          let d1 = d\<lparr>micDataArray := Some freq\<rparr>;
              sum = sum_list (map (\<lambda>x. real x * real x) freq);
              rawIntensity =
                (if freq = [] then NaN
                 else Num (clamp (sqrt (sum / real (length freq)) / 128) 0 1));
              delta = num_sub rawIntensity (intensity (state d1))
          in if num_gt (num_abs delta) 0.01
             then d1\<lparr>targetIntensity := rawIntensity\<rparr>
             else d1)"

definition BreathingDetector_setGuidedPattern :: "detector \<Rightarrow> pattern \<Rightarrow> detector" where
  "BreathingDetector_setGuidedPattern d p = d\<lparr>guidedPattern := Some p, guidedTimer := 0, mode := Guided\<rparr>"

text \<open>
  \<open>_updateFromGuided\<close>. In the first branch the source divides by \<open>p.inhale\<close>, which
  is zero there only when the timer is negative: the quotient is then infinite and its
  cosine is \<open>NaN\<close>. In the third branch \<open>p.exhale\<close> is positive, by the two tests
  before it.
\<close>

definition BreathingDetector_updateFromGuided :: "detector \<Rightarrow> real \<Rightarrow> detector \<times> event list" where
  "BreathingDetector_updateFromGuided d deltaTime =
     (case guidedPattern d of
        None \<Rightarrow> (d, [])
      | Some p \<Rightarrow>
          let timer = guidedTimer d + deltaTime;
              totalTime = inhale p + holdIn p + exhale p + holdOut p;
              wrapped = (timer \<ge> totalTime);
              elapsed = (if wrapped then 0 else timer);
              events = (if wrapped then [CycleComplete] else []);
              d1 = d\<lparr>guidedTimer := elapsed\<rparr>
          in if elapsed < inhale p then
               (d1\<lparr>targetIntensity :=
                      (if inhale p = 0 then NaN
                       else Num (easeInOutSine (elapsed / inhale p))),
                    state := (state d1)\<lparr>phase := INHALE\<rparr>\<rparr>, events)
             else if elapsed < inhale p + holdIn p then
               (d1\<lparr>targetIntensity := Num 1,
                    state := (state d1)\<lparr>phase := HOLD_IN\<rparr>\<rparr>, events)
             else if elapsed < inhale p + holdIn p + exhale p then
               (d1\<lparr>targetIntensity :=
                      Num (1 - easeInOutSine ((elapsed - inhale p - holdIn p) / exhale p)),
                    state := (state d1)\<lparr>phase := EXHALE\<rparr>\<rparr>, events)
             else
               (d1\<lparr>targetIntensity := Num 0,
                    state := (state d1)\<lparr>phase := HOLD_OUT\<rparr>\<rparr>, events))"

text \<open>The threshold test of \<open>update\<close> (manual and microphone modes).\<close>

definition detectPhase :: "jsnum \<Rightarrow> BreathPhase" where
  "detectPhase i =
     (if num_gt i 0.8 then INHALE
      else if num_gt i 0.6 then HOLD_IN
      else if num_gt i 0.2 then EXHALE
      else HOLD_OUT)"

text \<open>The smoothing and clamping step of \<open>update\<close>.\<close>

definition smoothIntensity :: "jsnum \<Rightarrow> jsnum \<Rightarrow> jsnum" where
  "smoothIntensity target i =
     num_clamp (num_add i (num_scale (num_sub target i) smoothingFactor)) 0 1"

definition BreathingDetector_update :: "detector \<Rightarrow> real \<Rightarrow> nat list \<Rightarrow> detector \<times> event list" where
  "BreathingDetector_update d deltaTime freq =
     (if \<not> isActive (state d) then (d, [])
      else
        let (d1, ev1) =
              (case mode d of
                 Mic \<Rightarrow> (BreathingDetector_updateFromMicrophone d freq, [])
               | Guided \<Rightarrow> BreathingDetector_updateFromGuided d deltaTime
               | Manual \<Rightarrow> (d, []));
            s1 = (state d1)\<lparr>intensity := smoothIntensity (targetIntensity d1) (intensity (state d1))\<rparr>;
            s2 = s1\<lparr>duration := duration s1 + deltaTime\<rparr>
        in if mode d1 \<noteq> Guided then
             let prevPhase = phase s2;
                 s3 = s2\<lparr>phase := detectPhase (intensity s2)\<rparr>
             in if prevPhase \<noteq> phase s3 then
                  let s4 = s3\<lparr>duration := 0\<rparr>;
                      ev2 = ev1 @ [PhaseChange (phase s4)]
                  in if prevPhase = EXHALE \<and> phase s4 = INHALE then
                       (d1\<lparr>state := s4\<lparr>totalCycles := totalCycles s4 + 1\<rparr>\<rparr>,
                        ev2 @ [CycleComplete])
                     else (d1\<lparr>state := s4\<rparr>, ev2)
                else (d1\<lparr>state := s3\<rparr>, ev1)
           else (d1\<lparr>state := s2\<rparr>, ev1))"

definition BreathingDetector_start :: "detector \<Rightarrow> detector" where
  "BreathingDetector_start d = d\<lparr>state := (state d)\<lparr>isActive := True\<rparr>\<rparr>"

definition BreathingDetector_pause :: "detector \<Rightarrow> detector" where
  "BreathingDetector_pause d = d\<lparr>state := (state d)\<lparr>isActive := False\<rparr>\<rparr>"

definition BreathingDetector_reset :: "detector \<Rightarrow> detector" where
  "BreathingDetector_reset d = d\<lparr>state := (state d)\<lparr>totalCycles := 0, duration := 0,
                                    intensity := Num 0.5, phase := EXHALE\<rparr>\<rparr>"

text \<open>
  The pattern of the comment in \<open>setGuidedPattern\<close>, and a fresh detector that was
  given this pattern and started.
\<close>

definition pattern_478 :: pattern where
  "pattern_478 = \<lparr> inhale = 4, holdIn = 7, exhale = 8, holdOut = 0 \<rparr>"

definition guided_478 :: detector where
  "guided_478 =
     BreathingDetector_start (BreathingDetector_setGuidedPattern BreathingDetector_new pattern_478)"

text \<open>A number of the interval from 0 to 1; \<open>NaN\<close> is not one.\<close>

definition unit_interval :: "jsnum \<Rightarrow> bool" where
  "unit_interval v = (case v of Num x \<Rightarrow> 0 \<le> x \<and> x \<le> 1 | NaN \<Rightarrow> False)"


section \<open>Vectors (utils.js)\<close>

text \<open>
  The methods of \<open>Vector2\<close> change the vector in place and return it; here each one
  returns the new vector. No two particles share a vector, and \<open>copy\<close> is the identity.
\<close>

record vector2 =
  vec_x :: real
  vec_y :: real

definition Vector2_add :: "vector2 \<Rightarrow> vector2 \<Rightarrow> vector2" where
  "Vector2_add v w = \<lparr> vec_x = vec_x v + vec_x w, vec_y = vec_y v + vec_y w \<rparr>"

definition Vector2_multiply :: "vector2 \<Rightarrow> real \<Rightarrow> vector2" where
  "Vector2_multiply v scalar = \<lparr> vec_x = vec_x v * scalar, vec_y = vec_y v * scalar \<rparr>"

definition Vector2_divide :: "vector2 \<Rightarrow> real \<Rightarrow> vector2" where
  "Vector2_divide v scalar =
     (if scalar \<noteq> 0 then \<lparr> vec_x = vec_x v / scalar, vec_y = vec_y v / scalar \<rparr> else v)"

definition Vector2_magnitude :: "vector2 \<Rightarrow> real" where
  "Vector2_magnitude v = sqrt (vec_x v * vec_x v + vec_y v * vec_y v)"

definition Vector2_normalize :: "vector2 \<Rightarrow> vector2" where
  "Vector2_normalize v =
     (let mag = Vector2_magnitude v in if mag > 0 then Vector2_divide v mag else v)"

definition Vector2_limit :: "vector2 \<Rightarrow> real \<Rightarrow> vector2" where
  "Vector2_limit v mx =
     (let mag = Vector2_magnitude v
      in if mag > mx then Vector2_multiply (Vector2_normalize v) mx else v)"

section \<open>The nebula (visuals/nebula.js)\<close>

text \<open>
  \<open>Math.random()\<close> is an input: a sequence \<open>us\<close> of numbers and the index \<open>k\<close> of
  the next one to hand out. \<open>random_js u lo hi\<close> is \<open>random(lo, hi)\<close> of utils.js where
  \<open>Math.random()\<close> returned \<open>u\<close>.
\<close>

definition random_js :: "real \<Rightarrow> real \<Rightarrow> real \<Rightarrow> real" where
  "random_js u lo hi = u * (hi - lo) + lo"

text \<open>The field \<open>size\<close> of the source is \<open>particle_size\<close> here.\<close>

record particle =
  position :: vector2
  velocity :: vector2
  acceleration :: vector2
  baseSize :: real
  particle_size :: real
  maxSize :: real
  life :: real
  maxLife :: real
  age :: real
  palette :: string
  colorPosition :: real
  twinklePhase :: real
  twinkleSpeed :: real
  opacity :: real

text \<open>The constructor of \<open>Particle\<close> calls \<open>Math.random()\<close> eight times.\<close>

definition Particle_new :: "real \<Rightarrow> real \<Rightarrow> string \<Rightarrow> (nat \<Rightarrow> real) \<Rightarrow> nat \<Rightarrow> particle" where
  "Particle_new px py pal us k =
     (let bs = random_js (us (k + 2)) 1 4
      in \<lparr> position = \<lparr> vec_x = px, vec_y = py \<rparr>,
           velocity = \<lparr> vec_x = random_js (us k) (-0.5) 0.5,
                        vec_y = random_js (us (k + 1)) (-0.5) 0.5 \<rparr>,
           acceleration = \<lparr> vec_x = 0, vec_y = 0 \<rparr>,
           baseSize = bs,
           particle_size = bs,
           maxSize = bs * 3,
           life = 1,
           maxLife = random_js (us (k + 3)) 3 8,
           age = 0,
           palette = pal,
           colorPosition = random_js (us (k + 4)) 0.3 0.9,
           twinklePhase = random_js (us (k + 5)) 0 (pi * 2),
           twinkleSpeed = random_js (us (k + 6)) 1 3,
           opacity = random_js (us (k + 7)) 0.4 1 \<rparr>)"

text \<open>
  \<open>Particle.update\<close> returns the particle as it leaves it and the boolean
  \<open>life > 0\<close>. The division by \<open>maxLife\<close> is the real one: the constructor draws
  \<open>maxLife\<close> from 3 to 8, and the properties below are about particles whose
  \<open>maxLife\<close> is positive.
\<close>

definition Particle_update :: "particle \<Rightarrow> real \<Rightarrow> real \<Rightarrow> real \<Rightarrow> real \<Rightarrow> particle \<times> bool" where
  "Particle_update p deltaTime breathIntensity canvasWidth canvasHeight =
     (let age1 = age p + deltaTime;
          life1 = 1 - age1 / maxLife p;
          velocity1 = Vector2_limit (Vector2_add (velocity p) (acceleration p)) 2;
          position1 = Vector2_add (position p) (Vector2_multiply velocity1 (deltaTime * 60));
          breathScale = 1 + breathIntensity * 0.8;
          size1 = clamp (baseSize p * breathScale) (baseSize p) (maxSize p);
          centerX = canvasWidth / 2;
          centerY = canvasHeight / 2;
          acceleration1 =
            (if breathIntensity < 0.3 then
               Vector2_add (acceleration p)
                 (Vector2_multiply
                    (Vector2_normalize \<lparr> vec_x = centerX - vec_x position1,
                                          vec_y = centerY - vec_y position1 \<rparr>) 0.02)
             else
               Vector2_add (acceleration p)
                 (Vector2_multiply
                    (Vector2_normalize \<lparr> vec_x = vec_x position1 - centerX,
                                          vec_y = vec_y position1 - centerY \<rparr>)
                    (0.01 * breathIntensity)));
          x1 = (if vec_x position1 < 0 then canvasWidth else vec_x position1);
          x2 = (if x1 > canvasWidth then 0 else x1);
          y1 = (if vec_y position1 < 0 then canvasHeight else vec_y position1);
          y2 = (if y1 > canvasHeight then 0 else y1)
      in (p\<lparr> age := age1,
             life := life1,
             velocity := velocity1,
             position := \<lparr> vec_x = x2, vec_y = y2 \<rparr>,
             particle_size := size1,
             twinklePhase := twinklePhase p + twinkleSpeed p * deltaTime,
             acceleration := Vector2_multiply acceleration1 0 \<rparr>,
          life1 > 0))"

record star =
  star_x :: real
  star_y :: real
  star_size :: real
  star_opacity :: real
  star_twinklePhase :: real
  star_twinkleSpeed :: real

text \<open>The field \<open>palette\<close> of \<open>NebulaVisual\<close> is \<open>visual_palette\<close> here.\<close>

record nebula =
  canvasWidth :: real
  canvasHeight :: real
  particles :: "particle list"
  targetParticleCount :: nat
  maxParticles :: nat
  visual_palette :: string
  spawnTimer :: real
  spawnRate :: real
  backgroundStars :: "star list"

text \<open>\<open>_generateBackgroundStars\<close>: six calls of \<open>Math.random()\<close> for each star.\<close>

fun generateBackgroundStars :: "nat \<Rightarrow> real \<Rightarrow> real \<Rightarrow> (nat \<Rightarrow> real) \<Rightarrow> nat \<Rightarrow> star list" where
  "generateBackgroundStars 0 w h us k = []"
| "generateBackgroundStars (Suc n) w h us k =
     \<lparr> star_x = random_js (us k) 0 w,
       star_y = random_js (us (k + 1)) 0 h,
       star_size = random_js (us (k + 2)) 0.5 2,
       star_opacity = random_js (us (k + 3)) 0.3 0.8,
       star_twinklePhase = random_js (us (k + 4)) 0 (pi * 2),
       star_twinkleSpeed = random_js (us (k + 5)) 0.5 2 \<rparr>
     # generateBackgroundStars n w h us (k + 6)"

definition NebulaVisual_new :: "real \<Rightarrow> real \<Rightarrow> (nat \<Rightarrow> real) \<Rightarrow> nat \<Rightarrow> nebula" where
  "NebulaVisual_new w h us k =
     \<lparr> canvasWidth = w, canvasHeight = h,
       particles = [],
       targetParticleCount = 800,
       maxParticles = 1500,
       visual_palette = ''deepSpace'',
       spawnTimer = 0,
       spawnRate = 0.05,
       backgroundStars = generateBackgroundStars 200 w h us k \<rparr>"

definition NebulaVisual_setPalette :: "nebula \<Rightarrow> string \<Rightarrow> nebula" where
  "NebulaVisual_setPalette v paletteName = v\<lparr>visual_palette := paletteName\<rparr>"

text \<open>\<open>_spawnParticle\<close> calls \<open>Math.random()\<close> eleven times.\<close>

definition NebulaVisual_spawnParticle :: "nebula \<Rightarrow> real \<Rightarrow> (nat \<Rightarrow> real) \<Rightarrow> nat \<Rightarrow> nebula" where
  "NebulaVisual_spawnParticle v breathIntensity us k =
     (let centerX = canvasWidth v / 2;
          centerY = canvasHeight v / 2;
          angle = random_js (us k) 0 (pi * 2);
          distance = random_js (us (k + 1)) 0 (100 * breathIntensity);
          px = centerX + cos angle * distance;
          py = centerY + sin angle * distance;
          p = Particle_new px py (visual_palette v) us (k + 2);
          speed = random_js (us (k + 10)) 10 30 * breathIntensity;
          p1 = p\<lparr>velocity := \<lparr> vec_x = cos angle * speed, vec_y = sin angle * speed \<rparr>\<rparr>
      in v\<lparr>particles := particles v @ [p1]\<rparr>)"

text \<open>
  The spawning loop of \<open>update\<close>: it ends because every round adds a particle and the
  number of particles is bounded by \<open>maxParticles\<close>.
\<close>

function spawnLoop :: "nebula \<Rightarrow> real \<Rightarrow> real \<Rightarrow> (nat \<Rightarrow> real) \<Rightarrow> nat \<Rightarrow> nebula \<times> nat" where
  "spawnLoop v adjustedSpawnRate breathIntensity us k =
     (if spawnTimer v \<ge> adjustedSpawnRate \<and> length (particles v) < maxParticles v
      then spawnLoop
             (NebulaVisual_spawnParticle (v\<lparr>spawnTimer := spawnTimer v - adjustedSpawnRate\<rparr>)
                breathIntensity us k)
             adjustedSpawnRate breathIntensity us (k + 11)
      else (v, k))"
  by pat_completeness auto
termination
  by (relation "measure (\<lambda>(v, r, b, us, k). maxParticles v - length (particles v))")
    (auto simp: NebulaVisual_spawnParticle_def Let_def)

text \<open>
  \<open>NebulaVisual.update\<close> reads \<open>intensity\<close> and \<open>totalCycles\<close> of the breath state.
  Where \<open>spawnMultiplier\<close> is zero the source divides by zero: the spawn rate is
  infinite and the loop does not run. \<open>filter\<close> calls \<open>particle.update\<close> on every
  particle, in order, and keeps those for which it returned true.
\<close>

definition NebulaVisual_update ::
  "nebula \<Rightarrow> real \<Rightarrow> nat \<Rightarrow> real \<Rightarrow> (nat \<Rightarrow> real) \<Rightarrow> nat \<Rightarrow> nebula \<times> nat" where
  "NebulaVisual_update v intensity' totalCycles' deltaTime us k =
     (let v1 = v\<lparr>spawnTimer := spawnTimer v + deltaTime\<rparr>;
          spawnMultiplier = 1 + intensity' * 2;
          (v2, k2) =
            (if spawnMultiplier = 0 then (v1, k)
             else spawnLoop v1 (spawnRate v1 / spawnMultiplier) intensity' us k);
          updated = map (\<lambda>p. Particle_update p deltaTime intensity' (canvasWidth v2) (canvasHeight v2))
                      (particles v2);
          v3 = v2\<lparr>particles := map fst (filter snd updated)\<rparr>;
          v4 = (if totalCycles' > 0
                then v3\<lparr>targetParticleCount := min (800 + totalCycles' * 50) (maxParticles v3)\<rparr>
                else v3)
      in (v4\<lparr>backgroundStars :=
               map (\<lambda>s. s\<lparr>star_twinklePhase := star_twinklePhase s + star_twinkleSpeed s * deltaTime\<rparr>)
                 (backgroundStars v4)\<rparr>,
          k2))"

definition NebulaVisual_resize :: "nebula \<Rightarrow> real \<Rightarrow> real \<Rightarrow> (nat \<Rightarrow> real) \<Rightarrow> nat \<Rightarrow> nebula" where
  "NebulaVisual_resize v w h us k =
     v\<lparr>canvasWidth := w, canvasHeight := h,
       backgroundStars := generateBackgroundStars 200 w h us k\<rparr>"

definition NebulaVisual_reset :: "nebula \<Rightarrow> nebula" where
  "NebulaVisual_reset v = v\<lparr>particles := [], spawnTimer := 0\<rparr>"

text \<open>A particle inside the canvas, and one used in the examples below.\<close>

definition in_canvas :: "particle \<Rightarrow> real \<Rightarrow> real \<Rightarrow> bool" where
  "in_canvas p w h =
     (0 \<le> vec_x (position p) \<and> vec_x (position p) \<le> w
      \<and> 0 \<le> vec_y (position p) \<and> vec_y (position p) \<le> h)"

definition particle_example :: particle where
  "particle_example =
     \<lparr> position = \<lparr> vec_x = 10, vec_y = 10 \<rparr>,
       velocity = \<lparr> vec_x = 1, vec_y = 0 \<rparr>,
       acceleration = \<lparr> vec_x = 0, vec_y = 0 \<rparr>,
       baseSize = 2, particle_size = 2, maxSize = 6,
       life = 1, maxLife = 5, age = 0,
       palette = ''deepSpace'', colorPosition = 0.5,
       twinklePhase = 0, twinkleSpeed = 1, opacity = 1 \<rparr>"

definition nebula_example :: nebula where
  "nebula_example = (NebulaVisual_new 800 600 (\<lambda>n. 1 / 2) 0)\<lparr>particles := [particle_example]\<rparr>"


section \<open>The synthesizer (audio/synth.js)\<close>

text \<open>
  The Web Audio nodes are the platform's. The model keeps what the code does to them:
  for every \<open>AudioParam\<close> the value assigned to it and the list of the automation calls
  made on it, oldest first, and for every oscillator whether it was started or stopped.
  What the platform renders from the calls is not modelled. The clock
  \<open>ctx.currentTime\<close> is an argument \<open>now\<close> of every operation that reads it.
\<close>

datatype param_call =
    CancelScheduledValues real
  | SetValueAtTime real real
  | LinearRampToValueAtTime real real
  | SetTargetAtTime real real real

record audio_param =
  param_value :: real
  automation :: "param_call list"

definition new_param :: "real \<Rightarrow> audio_param" where
  "new_param v = \<lparr> param_value = v, automation = [] \<rparr>"

definition schedule :: "audio_param \<Rightarrow> param_call list \<Rightarrow> audio_param" where
  "schedule p cs = p\<lparr>automation := automation p @ cs\<rparr>"

text \<open>
  The level the most recent call drives a parameter to; the assigned value when no call
  was made or the most recent one only cancelled.
\<close>

definition scheduled_target :: "audio_param \<Rightarrow> real" where
  "scheduled_target p =
     (case rev (automation p) of
        [] \<Rightarrow> param_value p
      | CancelScheduledValues t # _ \<Rightarrow> param_value p
      | SetValueAtTime v t # _ \<Rightarrow> v
      | LinearRampToValueAtTime v t # _ \<Rightarrow> v
      | SetTargetAtTime v t c # _ \<Rightarrow> v)"

text \<open>
  An oscillator can be started once, and stopped once it was started; the platform
  throws \<open>InvalidStateError\<close> otherwise.
\<close>

datatype osc_status = Unstarted | Running | Ended

datatype audio_error = InvalidStateError | TypeError

record oscillator =
  osc_type :: string
  osc_frequency :: audio_param
  osc_status :: osc_status

definition osc_start :: "oscillator \<Rightarrow> audio_error + oscillator" where
  "osc_start osc =
     (if osc_status osc = Unstarted then Inr (osc\<lparr>osc_status := Running\<rparr>)
      else Inl InvalidStateError)"

definition osc_stop :: "oscillator \<Rightarrow> audio_error + oscillator" where
  "osc_stop osc =
     (if osc_status osc = Unstarted then Inl InvalidStateError
      else Inr (osc\<lparr>osc_status := Ended\<rparr>))"

text \<open>
  The synthesizer. \<open>retired\<close> holds the oscillators that \<open>_init\<close> replaced, and
  \<open>pendingStops\<close> counts the timers of \<open>stop\<close> that have not fired: the source has
  neither field, the platform keeps both.
\<close>

record synth =
  droneOsc :: oscillator
  breathOsc :: oscillator
  shimmerOsc :: oscillator
  droneGain :: audio_param
  breathGain :: audio_param
  shimmerGain :: audio_param
  masterGain :: audio_param
  filter_frequency :: audio_param
  filter_Q :: audio_param
  isPlaying :: bool
  currentBreathFreq :: real
  targetBreathFreq :: real
  retired :: "oscillator list"
  pendingStops :: nat

text \<open>\<open>_init\<close> creates every node anew; it leaves the three state fields alone.\<close>

definition BreathingSynth_init :: "synth \<Rightarrow> synth" where
  "BreathingSynth_init s =
     s\<lparr> masterGain := new_param 0.3,
        filter_frequency := new_param 2000,
        filter_Q := new_param 1,
        droneOsc := \<lparr> osc_type = ''sine'', osc_frequency = new_param 60,
                      osc_status = Unstarted \<rparr>,
        droneGain := new_param 0.15,
        breathOsc := \<lparr> osc_type = ''triangle'', osc_frequency = new_param 200,
                       osc_status = Unstarted \<rparr>,
        breathGain := new_param 0,
        shimmerOsc := \<lparr> osc_type = ''sine'', osc_frequency = new_param 1200,
                        osc_status = Unstarted \<rparr>,
        shimmerGain := new_param 0 \<rparr>"

definition BreathingSynth_new :: synth where
  "BreathingSynth_new =
     BreathingSynth_init
       \<lparr> droneOsc = \<lparr> osc_type = [], osc_frequency = new_param 0, osc_status = Unstarted \<rparr>,
         breathOsc = \<lparr> osc_type = [], osc_frequency = new_param 0, osc_status = Unstarted \<rparr>,
         shimmerOsc = \<lparr> osc_type = [], osc_frequency = new_param 0, osc_status = Unstarted \<rparr>,
         droneGain = new_param 0, breathGain = new_param 0, shimmerGain = new_param 0,
         masterGain = new_param 0, filter_frequency = new_param 0, filter_Q = new_param 0,
         isPlaying = False,
         currentBreathFreq = 200,
         targetBreathFreq = 200,
         retired = [],
         pendingStops = 0 \<rparr>"

definition BreathingSynth_start :: "synth \<Rightarrow> real \<Rightarrow> audio_error + synth" where
  "BreathingSynth_start s now =
     (if isPlaying s then Inr s
      else
        case osc_start (droneOsc s) of Inl e \<Rightarrow> Inl e | Inr drone \<Rightarrow>
        case osc_start (breathOsc s) of Inl e \<Rightarrow> Inl e | Inr breath \<Rightarrow>
        case osc_start (shimmerOsc s) of Inl e \<Rightarrow> Inl e | Inr shimmer \<Rightarrow>
          Inr (s\<lparr> droneOsc := drone, breathOsc := breath, shimmerOsc := shimmer,
                   masterGain := schedule (masterGain s)
                     [CancelScheduledValues now, SetValueAtTime 0 now,
                      LinearRampToValueAtTime 0.3 (now + 2)],
                   isPlaying := True \<rparr>))"

text \<open>
  \<open>stop\<close> reads \<open>masterGain.gain.value\<close>, the level the platform renders at that
  moment: the argument \<open>level\<close>. The callback it hands to \<open>setTimeout\<close> is
  \<open>BreathingSynth_stop_timeout\<close>.
\<close>

definition BreathingSynth_stop :: "synth \<Rightarrow> real \<Rightarrow> real \<Rightarrow> synth" where
  "BreathingSynth_stop s now level =
     (if \<not> isPlaying s then s
      else s\<lparr> masterGain := schedule (masterGain s)
                  [CancelScheduledValues now, SetValueAtTime level now,
                   LinearRampToValueAtTime 0 (now + 1)],
               pendingStops := pendingStops s + 1 \<rparr>)"

definition BreathingSynth_stop_timeout :: "synth \<Rightarrow> audio_error + synth" where
  "BreathingSynth_stop_timeout s =
     (case osc_stop (droneOsc s) of Inl e \<Rightarrow> Inl e | Inr drone \<Rightarrow>
      case osc_stop (breathOsc s) of Inl e \<Rightarrow> Inl e | Inr breath \<Rightarrow>
      case osc_stop (shimmerOsc s) of Inl e \<Rightarrow> Inl e | Inr shimmer \<Rightarrow>
        Inr (BreathingSynth_init
               (s\<lparr> isPlaying := False,
                    retired := retired s @ [drone, breath, shimmer],
                    pendingStops := pendingStops s - 1 \<rparr>)))"

text \<open>\<open>update\<close> reads \<open>intensity\<close> and \<open>phase\<close> of the breath state.\<close>

definition BreathingSynth_update :: "synth \<Rightarrow> real \<Rightarrow> BreathPhase \<Rightarrow> real \<Rightarrow> synth" where
  "BreathingSynth_update s intensity' phase' now =
     (if \<not> isPlaying s then s
      else
        let target = lerp 200 800 intensity';
            current = lerp (currentBreathFreq s) target 0.1;
            breathVolume = clamp (intensity' * 0.25) 0 0.25;
            filterFreq = lerp 800 4000 intensity';
            shimmerFreq = lerp 1000 1500 (sin (now * 2) * 0.5 + 0.5)
        in s\<lparr> targetBreathFreq := target,
               currentBreathFreq := current,
               breathOsc := (breathOsc s)\<lparr>osc_frequency :=
                  schedule (osc_frequency (breathOsc s)) [SetTargetAtTime current now 0.1]\<rparr>,
               breathGain := schedule (breathGain s) [SetTargetAtTime breathVolume now 0.1],
               filter_frequency :=
                  schedule (filter_frequency s) [SetTargetAtTime filterFreq now 0.15],
               shimmerGain :=
                  (if phase' = HOLD_IN \<or> phase' = HOLD_OUT
                   then schedule (shimmerGain s) [SetTargetAtTime 0.08 now 0.2]
                   else schedule (shimmerGain s) [SetTargetAtTime 0 now 0.3]),
               shimmerOsc := (shimmerOsc s)\<lparr>osc_frequency :=
                  schedule (osc_frequency (shimmerOsc s)) [SetTargetAtTime shimmerFreq now 0.5]\<rparr> \<rparr>)"

definition BreathingSynth_setVolume :: "synth \<Rightarrow> real \<Rightarrow> real \<Rightarrow> synth" where
  "BreathingSynth_setVolume s volume now =
     s\<lparr>masterGain := schedule (masterGain s) [SetTargetAtTime (clamp volume 0 1) now 0.1]\<rparr>"

definition BreathingSynth_mute :: "synth \<Rightarrow> real \<Rightarrow> synth" where
  "BreathingSynth_mute s now = BreathingSynth_setVolume s 0 now"

definition BreathingSynth_unmute :: "synth \<Rightarrow> real \<Rightarrow> synth" where
  "BreathingSynth_unmute s now = BreathingSynth_setVolume s 0.3 now"

text \<open>The oscillators that are sounding: started and not stopped.\<close>

definition active_generators :: "synth \<Rightarrow> oscillator list" where
  "active_generators s =
     filter (\<lambda>osc. osc_status osc = Running)
       ([droneOsc s, breathOsc s, shimmerOsc s] @ retired s)"

section \<open>The audio engine (audio/engine.js)\<close>

datatype context_state = Suspended | Active | Closed

text \<open>
  \<open>ctx\<close> and \<open>synth\<close> are \<open>None\<close> for \<open>null\<close>. The field \<open>isPlaying\<close> of the engine is
  \<open>engine_isPlaying\<close> here, its \<open>synth\<close> is \<open>engine_synth\<close>.
\<close>

record engine =
  ctx :: "context_state option"
  engine_synth :: "synth option"
  isInitialized :: bool
  engine_isPlaying :: bool
  isMuted :: bool
  currentPalette :: string

definition AudioEngine_new :: engine where
  "AudioEngine_new =
     \<lparr> ctx = None, engine_synth = None, isInitialized = False, engine_isPlaying = False,
       isMuted = False, currentPalette = ''deepSpace'' \<rparr>"

text \<open>
  \<open>init\<close>: \<open>created\<close> is the state of the audio context the platform hands out, or
  \<open>None\<close> when it throws; the result carries the boolean the source returns.
\<close>

definition AudioEngine_init :: "engine \<Rightarrow> context_state option \<Rightarrow> engine \<times> bool" where
  "AudioEngine_init e created =
     (if isInitialized e then (e, True)
      else case created of
             None \<Rightarrow> (e, False)
           | Some st \<Rightarrow>
               (e\<lparr>ctx := Some st, engine_synth := Some BreathingSynth_new,
                  isInitialized := True\<rparr>, True))"

text \<open>
  \<open>start\<close>: reading \<open>this.ctx.state\<close> throws a \<open>TypeError\<close> when the context is
  \<open>null\<close>; \<open>resume\<close> makes a suspended context run.
\<close>

definition AudioEngine_start ::
  "engine \<Rightarrow> context_state option \<Rightarrow> real \<Rightarrow> audio_error + engine" where
  "AudioEngine_start e created now =
     (let e1 = (if \<not> isInitialized e then fst (AudioEngine_init e created) else e)
      in case ctx e1 of
           None \<Rightarrow> Inl TypeError
         | Some st \<Rightarrow>
             let e2 = (if st = Suspended then e1\<lparr>ctx := Some Active\<rparr> else e1)
             in case engine_synth e2 of
                  None \<Rightarrow> Inr e2
                | Some s \<Rightarrow>
                    if \<not> engine_isPlaying e2 then
                      (case BreathingSynth_start s now of
                         Inl err \<Rightarrow> Inl err
                       | Inr s1 \<Rightarrow> Inr (e2\<lparr>engine_synth := Some s1, engine_isPlaying := True\<rparr>))
                    else Inr e2)"

definition AudioEngine_stop :: "engine \<Rightarrow> real \<Rightarrow> real \<Rightarrow> engine" where
  "AudioEngine_stop e now level =
     (case engine_synth e of
        None \<Rightarrow> e
      | Some s \<Rightarrow>
          if engine_isPlaying e
          then e\<lparr>engine_synth := Some (BreathingSynth_stop s now level),
                 engine_isPlaying := False\<rparr>
          else e)"

definition AudioEngine_update :: "engine \<Rightarrow> real \<Rightarrow> BreathPhase \<Rightarrow> real \<Rightarrow> engine" where
  "AudioEngine_update e intensity' phase' now =
     (case engine_synth e of
        None \<Rightarrow> e
      | Some s \<Rightarrow>
          if engine_isPlaying e \<and> \<not> isMuted e
          then e\<lparr>engine_synth := Some (BreathingSynth_update s intensity' phase' now)\<rparr>
          else e)"

definition AudioEngine_toggleMute :: "engine \<Rightarrow> real \<Rightarrow> engine \<times> bool" where
  "AudioEngine_toggleMute e now =
     (let e1 = e\<lparr>isMuted := \<not> isMuted e\<rparr>;
          e2 = (case engine_synth e1 of
                  None \<Rightarrow> e1
                | Some s \<Rightarrow>
                    if isMuted e1 then e1\<lparr>engine_synth := Some (BreathingSynth_mute s now)\<rparr>
                    else e1\<lparr>engine_synth := Some (BreathingSynth_unmute s now)\<rparr>)
      in (e2, isMuted e2))"

definition AudioEngine_setVolume :: "engine \<Rightarrow> real \<Rightarrow> real \<Rightarrow> engine" where
  "AudioEngine_setVolume e volume now =
     (case engine_synth e of
        None \<Rightarrow> e
      | Some s \<Rightarrow> e\<lparr>engine_synth := Some (BreathingSynth_setVolume s volume now)\<rparr>)"

definition AudioEngine_setPalette :: "engine \<Rightarrow> string \<Rightarrow> engine" where
  "AudioEngine_setPalette e paletteName = e\<lparr>currentPalette := paletteName\<rparr>"

text \<open>
  A synthesizer started at time 0, and an engine that was initialised on a running
  context and started at time 0.
\<close>

definition synth_started :: synth where
  "synth_started =
     (case BreathingSynth_start BreathingSynth_new 0 of
        Inr s \<Rightarrow> s | Inl err \<Rightarrow> BreathingSynth_new)"

definition engine_started :: engine where
  "engine_started =
     (case AudioEngine_start AudioEngine_new (Some Active) 0 of
        Inr e \<Rightarrow> e | Inl err \<Rightarrow> AudioEngine_new)"

text \<open>
  The timer that \<open>stop\<close> of the synthesizer set fires: its callback runs on the
  synthesizer of the engine, which is never replaced.
\<close>

definition AudioEngine_stop_timeout :: "engine \<Rightarrow> audio_error + engine" where
  "AudioEngine_stop_timeout e =
     (case engine_synth e of
        None \<Rightarrow> Inr e
      | Some s \<Rightarrow>
          (case BreathingSynth_stop_timeout s of
             Inl err \<Rightarrow> Inl err
           | Inr s1 \<Rightarrow> Inr (e\<lparr>engine_synth := Some s1\<rparr>)))"

text \<open>
  A pause and a quick resume: the started engine is stopped at time 5, while the
  master gain is at 0.3, and started again at time 5.5, before the timer of the stop
  fires at time 6.1.
\<close>

definition engine_stopped :: engine where
  "engine_stopped = AudioEngine_stop engine_started 5 0.3"

definition engine_resumed :: engine where
  "engine_resumed =
     (case AudioEngine_start engine_stopped None 5.5 of
        Inr e \<Rightarrow> e | Inl err \<Rightarrow> AudioEngine_new)"

definition engine_after_timer :: engine where
  "engine_after_timer =
     (case AudioEngine_stop_timeout engine_resumed of
        Inr e \<Rightarrow> e | Inl err \<Rightarrow> AudioEngine_new)"


section \<open>Colours and palettes (utils.js)\<close>

text \<open>
  \<open>ColorPalettes\<close> is an object literal. Reading \<open>ColorPalettes[name]\<close> finds the own
  keys, the four palettes, and then the keys every object inherits from
  \<open>Object.prototype\<close>: eleven functions, of which the code reads \<open>length\<close> (the
  number of their parameters), and the accessor \<open>__proto__\<close>, whose value is the
  prototype object itself and has no \<open>length\<close>. Every other key is \<open>undefined\<close>.
\<close>

datatype js_value = Stops "string list" | Function nat | PrototypeObject

definition ColorPalettes :: "(string \<times> string list) list" where
  "ColorPalettes =
     [(''deepSpace'', [''#0a0e1a'', ''#1a1f3a'', ''#2d1b69'', ''#5a189a'', ''#9d4edd'']),
      (''solarFlare'', [''#1a0e00'', ''#4a1c00'', ''#ff6b35'', ''#ffa500'', ''#ffd700'']),
      (''northernLights'', [''#001a1a'', ''#003d3d'', ''#00ffc8'', ''#00ff88'', ''#88ffaa'']),
      (''lunarGlow'', [''#0a0a0f'', ''#1a1a2e'', ''#c0c0d0'', ''#e0e0f0'', ''#ffffff''])]"

definition Object_prototype :: "(string \<times> js_value) list" where
  "Object_prototype =
     [(''constructor'', Function 1),
      (''__defineGetter__'', Function 2),
      (''__defineSetter__'', Function 2),
      (''hasOwnProperty'', Function 1),
      (''__lookupGetter__'', Function 1),
      (''__lookupSetter__'', Function 1),
      (''isPrototypeOf'', Function 1),
      (''propertyIsEnumerable'', Function 1),
      (''toString'', Function 0),
      (''valueOf'', Function 0),
      (''toLocaleString'', Function 0),
      (''__proto__'', PrototypeObject)]"

definition ColorPalettes_get :: "string \<Rightarrow> js_value option" where
  "ColorPalettes_get name =
     (case map_of ColorPalettes name of
        Some stops \<Rightarrow> Some (Stops stops)
      | None \<Rightarrow> map_of Object_prototype name)"

text \<open>\<open>v.length\<close> and \<open>v[i]\<close>; \<open>None\<close> is \<open>undefined\<close>.\<close>

definition value_length :: "js_value \<Rightarrow> int option" where
  "value_length v =
     (case v of Stops xs \<Rightarrow> Some (int (length xs)) | Function n \<Rightarrow> Some (int n)
      | PrototypeObject \<Rightarrow> None)"

definition value_index :: "js_value \<Rightarrow> int \<Rightarrow> string option" where
  "value_index v i =
     (case v of
        Stops xs \<Rightarrow> (if 0 \<le> i \<and> i < int (length xs) then Some (xs ! nat i) else None)
      | Function n \<Rightarrow> None
      | PrototypeObject \<Rightarrow> None)"

record rgb =
  rgb_r :: int
  rgb_g :: int
  rgb_b :: int

text \<open>The digits the regular expression of \<open>hexToRgb\<close> accepts, and their values.\<close>

definition hex_digit_value :: "char \<Rightarrow> int option" where
  "hex_digit_value c =
     (let n = (of_char c :: nat)
      in if 48 \<le> n \<and> n \<le> 57 then Some (int n - 48)
         else if 97 \<le> n \<and> n \<le> 102 then Some (int n - 87)
         else if 65 \<le> n \<and> n \<le> 70 then Some (int n - 55)
         else None)"

text \<open>
  \<open>hexToRgb\<close>: an optional \<open>#\<close> and then exactly six hexadecimal digits, in either
  case; \<open>None\<close> is \<open>null\<close>.
\<close>

definition hexToRgb :: "string \<Rightarrow> rgb option" where
  "hexToRgb hex =
     (let body = (case hex of c # rest \<Rightarrow> (if c = CHR ''#'' then rest else hex) | [] \<Rightarrow> hex)
      in case map hex_digit_value body of
           [Some r1, Some r0, Some g1, Some g0, Some b1, Some b0] \<Rightarrow>
             Some \<lparr> rgb_r = 16 * r1 + r0, rgb_g = 16 * g1 + g0, rgb_b = 16 * b1 + b0 \<rparr>
         | _ \<Rightarrow> None)"

text \<open>
  The left shift of JavaScript works on 32-bit integers and gives a signed one.
  \<open>toString(16)\<close> of an integer: the digits of its absolute value, after a minus
  sign for a negative one.
\<close>

definition js_shl :: "int \<Rightarrow> nat \<Rightarrow> int" where
  "js_shl a n = sint (push_bit n (word_of_int a :: 32 word))"

definition hex_char :: "nat \<Rightarrow> char" where
  "hex_char n = ''0123456789abcdef'' ! n"

fun to_hex :: "nat \<Rightarrow> string" where
  "to_hex n = (if n < 16 then [hex_char n] else to_hex (n div 16) @ [hex_char (n mod 16)])"

definition toString16 :: "int \<Rightarrow> string" where
  "toString16 n = (if n < 0 then CHR ''-'' # to_hex (nat (- n)) else to_hex (nat n))"

definition rgbToHex :: "int \<Rightarrow> int \<Rightarrow> int \<Rightarrow> string" where
  "rgbToHex r g b =
     CHR ''#'' # drop 1 (toString16 (js_shl 1 24 + js_shl r 16 + js_shl g 8 + b))"

text \<open>\<open>Math.round\<close> rounds to the nearest integer, a half upwards.\<close>

definition js_round :: "real \<Rightarrow> int" where
  "js_round v = \<lfloor>v + 1 / 2\<rfloor>"

text \<open>
  \<open>lerpColor\<close>: the colours may be \<open>undefined\<close>, which \<open>hexToRgb\<close> does not match; the
  result is then \<open>color1\<close>.
\<close>

definition lerpColor :: "string option \<Rightarrow> string option \<Rightarrow> real \<Rightarrow> string option" where
  "lerpColor color1 color2 t =
     (case (Option.bind color1 hexToRgb, Option.bind color2 hexToRgb) of
        (Some c1, Some c2) \<Rightarrow>
          Some (rgbToHex (js_round (lerp (real_of_int (rgb_r c1)) (real_of_int (rgb_r c2)) t))
                         (js_round (lerp (real_of_int (rgb_g c1)) (real_of_int (rgb_g c2)) t))
                         (js_round (lerp (real_of_int (rgb_b c1)) (real_of_int (rgb_b c2)) t)))
      | _ \<Rightarrow> color1)"

text \<open>
  \<open>getColorFromPalette\<close>. Every value \<open>ColorPalettes[palette]\<close> can have is truthy, so
  the fallback is taken for \<open>undefined\<close> only. Where \<open>length\<close> is \<open>undefined\<close> the
  arithmetic gives \<open>NaN\<close>: the comparison fails, both colours are \<open>undefined\<close> and
  \<open>lerpColor\<close> returns the first.
\<close>

definition getColorFromPalette :: "string \<Rightarrow> real \<Rightarrow> string option" where
  "getColorFromPalette palette' t =
     (let paletteColors =
            (case ColorPalettes_get palette' of
               Some v \<Rightarrow> v
             | None \<Rightarrow> Stops (the (map_of ColorPalettes ''deepSpace'')))
      in case value_length paletteColors of
           None \<Rightarrow> None
         | Some len \<Rightarrow>
             let scaledT = t * real_of_int (len - 1);
                 index = \<lfloor>scaledT\<rfloor>;
                 localT = scaledT - real_of_int index
             in if index \<ge> len - 1 then value_index paletteColors (len - 1)
                else lerpColor (value_index paletteColors index)
                       (value_index paletteColors (index + 1)) localT)"

section \<open>Properties of the breathing detector\<close>

lemma smoothIntensity_unit: "unit_interval (smoothIntensity (Num t) (Num i))"
  by (simp add: smoothIntensity_def unit_interval_def clamp_def)

lemma updateFromGuided_frame:
  assumes "BreathingDetector_updateFromGuided d dt = (d1, ev)"
  shows "intensity (state d1) = intensity (state d) \<and> mode d1 = mode d
     \<and> isActive (state d1) = isActive (state d)
     \<and> totalCycles (state d1) = totalCycles (state d)
     \<and> duration (state d1) = duration (state d)"
  using assms
  by (auto simp: BreathingDetector_updateFromGuided_def Let_def split: option.splits if_splits)

lemma updateFromGuided_finite:
  assumes "BreathingDetector_updateFromGuided d dt = (d1, ev)"
    and "0 \<le> guidedTimer d" and "0 \<le> dt" and "targetIntensity d \<noteq> NaN"
  shows "targetIntensity d1 \<noteq> NaN \<and> 0 \<le> guidedTimer d1"
  using assms
  by (auto simp: BreathingDetector_updateFromGuided_def Let_def split: option.splits if_splits)

lemma updateFromMicrophone_frame:
  "state (BreathingDetector_updateFromMicrophone d freq) = state d
   \<and> mode (BreathingDetector_updateFromMicrophone d freq) = mode d
   \<and> guidedTimer (BreathingDetector_updateFromMicrophone d freq) = guidedTimer d"
  by (auto simp: BreathingDetector_updateFromMicrophone_def Let_def split: option.splits)

lemma updateFromMicrophone_finite:
  "targetIntensity d \<noteq> NaN \<Longrightarrow>
   targetIntensity (BreathingDetector_updateFromMicrophone d freq) \<noteq> NaN"
  by (auto simp: BreathingDetector_updateFromMicrophone_def Let_def split: option.splits)

text \<open>
  The constructor gives a non-negative timer and finite intensities, and the other
  operations keep them; update does for a delta time that is not negative.
\<close>

lemma BreathingDetector_new_finite:
  "0 \<le> guidedTimer BreathingDetector_new \<and> intensity (state BreathingDetector_new) \<noteq> NaN
   \<and> targetIntensity BreathingDetector_new \<noteq> NaN"
  by (simp add: BreathingDetector_new_def)

lemma operations_keep_finite:
  assumes "0 \<le> guidedTimer d" and "intensity (state d) \<noteq> NaN"
    and "targetIntensity d \<noteq> NaN"
    and "d' \<in> {BreathingDetector_start d, BreathingDetector_pause d, BreathingDetector_reset d,
               BreathingDetector_setGuidedPattern d p, BreathingDetector_handlePointerDown d,
               BreathingDetector_handlePointerUp d, fst (BreathingDetector_initMicrophone g d)}"
  shows "0 \<le> guidedTimer d' \<and> intensity (state d') \<noteq> NaN \<and> targetIntensity d' \<noteq> NaN"
  using assms
  by (auto simp: BreathingDetector_start_def BreathingDetector_pause_def
      BreathingDetector_reset_def BreathingDetector_setGuidedPattern_def
      BreathingDetector_handlePointerDown_def BreathingDetector_handlePointerUp_def
      BreathingDetector_initMicrophone_def split: if_splits)

lemma update_counts_transition:
  assumes "isActive (state d)" and "mode d \<noteq> Guided"
    and "BreathingDetector_update d deltaTime freq = (d', ev)"
  shows "(phase (state d) = EXHALE \<and> phase (state d') = INHALE
            \<longrightarrow> totalCycles (state d') = totalCycles (state d) + 1
              \<and> ev = [PhaseChange INHALE, CycleComplete])
       \<and> (\<not> (phase (state d) = EXHALE \<and> phase (state d') = INHALE)
            \<longrightarrow> totalCycles (state d') = totalCycles (state d) \<and> CycleComplete \<notin> set ev)"
proof (cases "mode d")
  case Manual
  then show ?thesis using assms
    by (auto simp: BreathingDetector_update_def Let_def split: if_splits)
next
  case Mic
  then show ?thesis using assms updateFromMicrophone_frame[of d freq]
    by (auto simp: BreathingDetector_update_def Let_def split: if_splits)
next
  case Guided
  then show ?thesis using assms by simp
qed

lemma update_totalCycles_mono:
  "totalCycles (state d) \<le> totalCycles (state (fst (BreathingDetector_update d deltaTime freq)))"
proof (cases "mode d")
  case Manual
  then show ?thesis
    by (auto simp: BreathingDetector_update_def Let_def split: if_splits)
next
  case Mic
  then show ?thesis using updateFromMicrophone_frame[of d freq]
    by (auto simp: BreathingDetector_update_def Let_def split: if_splits)
next
  case Guided
  obtain d1 ev where g: "BreathingDetector_updateFromGuided d deltaTime = (d1, ev)"
    by fastforce
  show ?thesis using Guided g updateFromGuided_frame[OF g]
    by (auto simp: BreathingDetector_update_def Let_def split: if_splits)
qed

text \<open>
  In the manual and microphone modes the phase follows the smoothed intensity, and one
  step of the smoothing moves the intensity by 15 percent of its distance to a target
  of at most 1: from Exhale (at most 0.6) it reaches 0.66 at most, never Inhale (above
  0.8). So no update of a detector whose phase agrees with its intensity counts a cycle.
\<close>

lemma smooth_stays_below:
  assumes "detectPhase (Num i) = EXHALE" and "tg \<le> 1"
  shows "detectPhase (smoothIntensity (Num tg) (Num i)) \<noteq> INHALE"
proof -
  define x where "x = i + (tg - i) * 0.15"
  have i: "i \<le> 0.6" using assms(1) by (auto simp: detectPhase_def split: if_splits)
  have "x \<le> 33 / 50" using i assms(2) by (simp add: x_def field_simps)
  then have "clamp x 0 1 \<le> 33 / 50" by (auto simp: clamp_def min_def max_def)
  then have "\<not> clamp x 0 1 > 0.8" by simp
  then show ?thesis
    by (simp add: smoothIntensity_def smoothingFactor_def detectPhase_def x_def)
qed

lemma mic_target_bound:
  assumes "targetIntensity d = Num tg" and "tg \<le> 1"
  shows "\<exists>tg'. targetIntensity (BreathingDetector_updateFromMicrophone d freq) = Num tg' \<and> tg' \<le> 1"
  using assms
  by (auto simp: BreathingDetector_updateFromMicrophone_def Let_def clamp_def split: option.splits)

lemma smoothing_never_counts:
  assumes "isActive (state d)" and "mode d \<noteq> Guided"
    and "intensity (state d) = Num i" and "phase (state d) = detectPhase (Num i)"
    and "targetIntensity d = Num tg" and "tg \<le> 1"
  shows "totalCycles (state (fst (BreathingDetector_update d deltaTime freq))) = totalCycles (state d)
       \<and> CycleComplete \<notin> set (snd (BreathingDetector_update d deltaTime freq))"
proof (cases "mode d")
  case Manual
  show ?thesis
  proof (cases "detectPhase (Num i) = EXHALE")
    case True
    then show ?thesis using Manual assms smooth_stays_below[OF True assms(6)]
      by (auto simp: BreathingDetector_update_def Let_def)
  next
    case False
    then show ?thesis using Manual assms
      by (auto simp: BreathingDetector_update_def Let_def)
  qed
next
  case Mic
  obtain tg' where t: "targetIntensity (BreathingDetector_updateFromMicrophone d freq) = Num tg'" "tg' \<le> 1"
    using mic_target_bound[OF assms(5,6)] by blast
  show ?thesis
  proof (cases "detectPhase (Num i) = EXHALE")
    case True
    then show ?thesis using Mic assms t smooth_stays_below[OF True t(2)] updateFromMicrophone_frame[of d freq]
      by (auto simp: BreathingDetector_update_def Let_def)
  next
    case False
    then show ?thesis using Mic assms updateFromMicrophone_frame[of d freq]
      by (auto simp: BreathingDetector_update_def Let_def)
  qed
next
  case Guided
  then show ?thesis using assms by simp
qed

text \<open>
  C1 (code defect). In the manual and microphone modes an update that takes the phase
  from Exhale to Inhale adds one to \<open>totalCycles\<close> and emits one cycle-complete event,
  and no update lowers the counter (\<open>update_counts_transition\<close>,
  \<open>update_totalCycles_mono\<close>). The guided wrap does not
  count: from a fresh detector with the pattern 4-7-8-0, an update by 18.95 s and one
  by 0.1 s carry the timer over the total of 19 s; the second update resets the timer
  and emits the cycle-complete event, and \<open>totalCycles\<close> is still 0.
\<close>

theorem guided_wrap_keeps_totalCycles:
  "guidedTimer (fst (BreathingDetector_update guided_478 18.95 [])) = 18.95
   \<and> guidedTimer (fst (BreathingDetector_update
         (fst (BreathingDetector_update guided_478 18.95 [])) 0.1 [])) = 0
   \<and> snd (BreathingDetector_update
         (fst (BreathingDetector_update guided_478 18.95 [])) 0.1 []) = [CycleComplete]
   \<and> totalCycles (state (fst (BreathingDetector_update
         (fst (BreathingDetector_update guided_478 18.95 [])) 0.1 []))) = 0"
  by (simp add: BreathingDetector_update_def BreathingDetector_updateFromGuided_def
      BreathingDetector_start_def BreathingDetector_setGuidedPattern_def
      BreathingDetector_new_def guided_478_def pattern_478_def Let_def)

text \<open>
  C2. For a delta time that is not negative, an update of an active detector leaves the
  intensity in the interval from 0 to 1, in every mode; an update of an inactive one
  changes nothing. The detector is one whose timer is not negative and whose
  intensities are numbers, as the constructor makes it; the update keeps it so.
\<close>

theorem update_intensity_unit:
  assumes "0 \<le> deltaTime" and "0 \<le> guidedTimer d"
    and "intensity (state d) \<noteq> NaN" and "targetIntensity d \<noteq> NaN"
  shows "(if isActive (state d)
          then unit_interval (intensity (state (fst (BreathingDetector_update d deltaTime freq))))
          else BreathingDetector_update d deltaTime freq = (d, []))
         \<and> 0 \<le> guidedTimer (fst (BreathingDetector_update d deltaTime freq))
         \<and> targetIntensity (fst (BreathingDetector_update d deltaTime freq)) \<noteq> NaN"
proof (cases "isActive (state d)")
  case False
  then show ?thesis using assms by (simp add: BreathingDetector_update_def)
next
  case True
  obtain i where i: "intensity (state d) = Num i"
    using assms(3) by (cases "intensity (state d)") auto
  show ?thesis
  proof (cases "mode d")
    case Manual
    obtain t where t: "targetIntensity d = Num t"
      using assms(4) by (cases "targetIntensity d") auto
    show ?thesis using True Manual i t assms smoothIntensity_unit[of t i]
      by (simp add: BreathingDetector_update_def Let_def)
  next
    case Mic
    let ?d1 = "BreathingDetector_updateFromMicrophone d freq"
    obtain t where t: "targetIntensity ?d1 = Num t"
      using updateFromMicrophone_finite[OF assms(4), of freq]
      by (cases "targetIntensity ?d1") auto
    show ?thesis
      using True Mic i t assms smoothIntensity_unit[of t i] updateFromMicrophone_frame[of d freq]
      by (simp add: BreathingDetector_update_def Let_def)
  next
    case Guided
    obtain d1 ev where g: "BreathingDetector_updateFromGuided d deltaTime = (d1, ev)"
      by fastforce
    note fin = updateFromGuided_finite[OF g assms(2) assms(1) assms(4)]
    obtain t where t: "targetIntensity d1 = Num t"
      using fin by (cases "targetIntensity d1") auto
    show ?thesis
      using True Guided i t g assms smoothIntensity_unit[of t i] updateFromGuided_frame[OF g] fin
      by (simp add: BreathingDetector_update_def Let_def)
  qed
qed

theorem update_intensity_unit_witness:
  "(0::real) \<le> 5 \<and> 0 \<le> guidedTimer guided_478
   \<and> intensity (state guided_478) \<noteq> NaN \<and> targetIntensity guided_478 \<noteq> NaN
   \<and> isActive (state guided_478)
   \<and> unit_interval (intensity (state (fst (BreathingDetector_update guided_478 5 []))))
   \<and> 0 \<le> guidedTimer (fst (BreathingDetector_update guided_478 5 []))
   \<and> targetIntensity (fst (BreathingDetector_update guided_478 5 [])) \<noteq> NaN
   \<and> \<not> isActive (state BreathingDetector_new)
   \<and> BreathingDetector_update BreathingDetector_new 5 [] = (BreathingDetector_new, [])"
  using update_intensity_unit[of 5 guided_478 "[]"]
    update_intensity_unit[of 5 BreathingDetector_new "[]"]
  by (simp add: guided_478_def BreathingDetector_start_def BreathingDetector_setGuidedPattern_def
      BreathingDetector_new_def)

text \<open>
  C3 (counterexample). A fresh detector with the pattern 4-7-8-0, updated by 5 s: the
  timer is 5 and the phase is HoldIn, and the intensity is 0.575, not 1.0: the update
  smooths the intensity toward its target in the guided mode as in the others.
\<close>

theorem guided_hold_intensity_not_one:
  "guidedTimer (fst (BreathingDetector_update guided_478 5 [])) = 5
   \<and> phase (state (fst (BreathingDetector_update guided_478 5 []))) = HOLD_IN
   \<and> intensity (state (fst (BreathingDetector_update guided_478 5 []))) = Num 0.575
   \<and> intensity (state (fst (BreathingDetector_update guided_478 5 []))) \<noteq> Num 1"
  by (simp add: BreathingDetector_update_def BreathingDetector_updateFromGuided_def
      BreathingDetector_start_def BreathingDetector_setGuidedPattern_def
      BreathingDetector_new_def guided_478_def pattern_478_def smoothIntensity_def
      smoothingFactor_def clamp_def Let_def)

text \<open>
  C3 (amended). In the guided mode with the pattern 4-7-8-0, for an active detector
  whose intensity \<open>i\<close> is in the interval from 0 to 1: an update that brings the
  timer to 2 gives the phase Inhale and an intensity strictly between 0 and 1; one that
  brings it to 5 gives the phase HoldIn, the target intensity 1.0 and the intensity
  \<open>i + (1 - i) * 0.15\<close>; one that brings it to 19 or more sets it to 0 and emits
  exactly one cycle-complete event, and any other update emits none.
\<close>

theorem guided_478_update:
  assumes "mode d = Guided" and "guidedPattern d = Some pattern_478"
    and "isActive (state d)" and "intensity (state d) = Num i" and "0 \<le> i" and "i \<le> 1"
    and "BreathingDetector_update d deltaTime freq = (d', ev)"
  shows "(guidedTimer d + deltaTime = 2 \<longrightarrow>
            guidedTimer d' = 2 \<and> phase (state d') = INHALE
            \<and> (\<exists>x. intensity (state d') = Num x \<and> 0 < x \<and> x < 1))
       \<and> (guidedTimer d + deltaTime = 5 \<longrightarrow>
            guidedTimer d' = 5 \<and> phase (state d') = HOLD_IN
            \<and> targetIntensity d' = Num 1
            \<and> intensity (state d') = Num (i + (1 - i) * 0.15))
       \<and> (guidedTimer d + deltaTime \<ge> 19 \<longrightarrow> guidedTimer d' = 0 \<and> ev = [CycleComplete])
       \<and> (guidedTimer d + deltaTime < 19 \<longrightarrow>
            guidedTimer d' = guidedTimer d + deltaTime \<and> ev = [])"
proof -
  have pos2: "0 < i + (1 / 2 - i) * 0.15" using assms(5,6) by (simp add: field_simps)
  have less2: "i + (1 / 2 - i) * 0.15 < 1" using assms(5,6) by (simp add: field_simps)
  have at2: "clamp (i + (1 / 2 - i) * 0.15) 0 1 = i + (1 / 2 - i) * 0.15"
    using pos2 less2 unfolding clamp_def by linarith
  have pos5: "0 \<le> i + (1 - i) * 0.15" using assms(5,6) by (simp add: field_simps)
  have less5: "i + (1 - i) * 0.15 \<le> 1" using assms(5,6) by (simp add: field_simps)
  have at5: "clamp (i + (1 - i) * 0.15) 0 1 = i + (1 - i) * 0.15"
    using pos5 less5 unfolding clamp_def by linarith
  have ease: "easeInOutSine (1 / 2) = 1 / 2"
    by (simp add: easeInOutSine_def)
  have c2: "guidedTimer d + deltaTime = 2 \<Longrightarrow>
      guidedTimer d' = 2 \<and> phase (state d') = INHALE
      \<and> intensity (state d') = Num (i + (1 / 2 - i) * 0.15)"
    using assms(1-4,7) at2 ease
    by (auto simp: BreathingDetector_update_def BreathingDetector_updateFromGuided_def
        smoothIntensity_def smoothingFactor_def pattern_478_def Let_def)
  have c5: "guidedTimer d + deltaTime = 5 \<Longrightarrow>
      guidedTimer d' = 5 \<and> phase (state d') = HOLD_IN \<and> targetIntensity d' = Num 1
      \<and> intensity (state d') = Num (i + (1 - i) * 0.15)"
    using assms(1-4,7) at5
    by (auto simp: BreathingDetector_update_def BreathingDetector_updateFromGuided_def
        smoothIntensity_def smoothingFactor_def pattern_478_def Let_def)
  have wrap: "guidedTimer d + deltaTime \<ge> 19 \<Longrightarrow> guidedTimer d' = 0 \<and> ev = [CycleComplete]"
    using assms(1-3,7)
    by (auto simp: BreathingDetector_update_def BreathingDetector_updateFromGuided_def
        pattern_478_def Let_def)
  have nowrap: "guidedTimer d + deltaTime < 19 \<Longrightarrow>
      guidedTimer d' = guidedTimer d + deltaTime \<and> ev = []"
    using assms(1-3,7)
    by (auto simp: BreathingDetector_update_def BreathingDetector_updateFromGuided_def
        pattern_478_def Let_def split: if_splits)
  show ?thesis using c2 c5 wrap nowrap pos2 less2 by blast
qed

theorem guided_478_update_witness:
  "mode guided_478 = Guided \<and> guidedPattern guided_478 = Some pattern_478
   \<and> isActive (state guided_478) \<and> intensity (state guided_478) = Num (1 / 2)
   \<and> guidedTimer guided_478 + 2 = 2
   \<and> guidedTimer (fst (BreathingDetector_update guided_478 2 [])) = 2
   \<and> phase (state (fst (BreathingDetector_update guided_478 2 []))) = INHALE
   \<and> (\<exists>x. intensity (state (fst (BreathingDetector_update guided_478 2 []))) = Num x
          \<and> 0 < x \<and> x < 1)
   \<and> snd (BreathingDetector_update guided_478 2 []) = []
   \<and> guidedTimer guided_478 + 5 = 5
   \<and> guidedTimer (fst (BreathingDetector_update guided_478 5 [])) = 5
   \<and> phase (state (fst (BreathingDetector_update guided_478 5 []))) = HOLD_IN
   \<and> targetIntensity (fst (BreathingDetector_update guided_478 5 [])) = Num 1
   \<and> intensity (state (fst (BreathingDetector_update guided_478 5 [])))
       = Num (1 / 2 + (1 - 1 / 2) * 0.15)
   \<and> snd (BreathingDetector_update guided_478 5 []) = []
   \<and> guidedTimer guided_478 + 19 \<ge> 19
   \<and> guidedTimer (fst (BreathingDetector_update guided_478 19 [])) = 0
   \<and> snd (BreathingDetector_update guided_478 19 []) = [CycleComplete]"
proof -
  have h: "mode guided_478 = Guided" "guidedPattern guided_478 = Some pattern_478"
    "isActive (state guided_478)" "intensity (state guided_478) = Num (1 / 2)"
    "guidedTimer guided_478 = 0"
    by (simp_all add: guided_478_def BreathingDetector_start_def
        BreathingDetector_setGuidedPattern_def BreathingDetector_new_def)
  have at: "BreathingDetector_update guided_478 dt [] =
      (fst (BreathingDetector_update guided_478 dt []),
       snd (BreathingDetector_update guided_478 dt []))" for dt
    by simp
  note two = guided_478_update[OF h(1-4) _ _ at[of 2]]
  note five = guided_478_update[OF h(1-4) _ _ at[of 5]]
  note wrap = guided_478_update[OF h(1-4) _ _ at[of 19]]
  show ?thesis using two five wrap h by simp
qed

lemma update_phase_change:
  assumes "isActive (state d)" and "mode d \<noteq> Guided"
    and "BreathingDetector_update d deltaTime freq = (d', ev)"
    and "phase (state d') \<noteq> phase (state d)"
  shows "duration (state d') = 0 \<and> hd ev = PhaseChange (phase (state d'))
       \<and> PhaseChange (phase (state d')) \<in> set ev"
proof (cases "mode d")
  case Manual
  then show ?thesis using assms
    by (auto simp: BreathingDetector_update_def Let_def split: if_splits)
next
  case Mic
  then show ?thesis using assms updateFromMicrophone_frame[of d freq]
    by (auto simp: BreathingDetector_update_def Let_def split: if_splits)
next
  case Guided
  then show ?thesis using assms by simp
qed

text \<open>
  C4 (code defect). In the manual and microphone modes an update that changes the phase
  sets the duration to 0 and emits a phase-change event with the new phase (the lemma
  above). The guided mode changes the phase without either: from a fresh detector with
  the pattern 4-7-8-0, an update by 3.95 s leaves the phase Inhale, the next one by
  0.1 s makes it HoldIn, emits no event and leaves the duration at 4.05 s.
\<close>

theorem guided_phase_change_silent:
  "phase (state (fst (BreathingDetector_update guided_478 3.95 []))) = INHALE
   \<and> phase (state (fst (BreathingDetector_update
         (fst (BreathingDetector_update guided_478 3.95 [])) 0.1 []))) = HOLD_IN
   \<and> snd (BreathingDetector_update
         (fst (BreathingDetector_update guided_478 3.95 [])) 0.1 []) = []
   \<and> duration (state (fst (BreathingDetector_update
         (fst (BreathingDetector_update guided_478 3.95 [])) 0.1 []))) = 4.05"
  by (simp add: BreathingDetector_update_def BreathingDetector_updateFromGuided_def
      BreathingDetector_start_def BreathingDetector_setGuidedPattern_def
      BreathingDetector_new_def guided_478_def pattern_478_def Let_def)

section \<open>Properties of the particle simulation\<close>

lemma Particle_update_alive:
  "snd (Particle_update p dt bi w h) = (life (fst (Particle_update p dt bi w h)) > 0)"
  by (simp add: Particle_update_def Let_def)

lemma Particle_update_in_canvas:
  assumes "0 \<le> w" and "0 \<le> h"
  shows "in_canvas (fst (Particle_update p dt bi w h)) w h"
  using assms by (simp add: Particle_update_def Let_def in_canvas_def)

lemma Particle_update_maxLife:
  "maxLife (fst (Particle_update p dt bi w h)) = maxLife p"
  by (simp add: Particle_update_def Let_def)

lemma spawnParticle_frame:
  "canvasWidth (NebulaVisual_spawnParticle v bi us k) = canvasWidth v
   \<and> canvasHeight (NebulaVisual_spawnParticle v bi us k) = canvasHeight v
   \<and> maxParticles (NebulaVisual_spawnParticle v bi us k) = maxParticles v
   \<and> length (particles (NebulaVisual_spawnParticle v bi us k)) = Suc (length (particles v))"
  by (simp add: NebulaVisual_spawnParticle_def Let_def)

lemma spawnParticle_maxLife:
  assumes "\<forall>n. 0 \<le> us n \<and> us n < 1" and "\<forall>p \<in> set (particles v). 0 < maxLife p"
  shows "\<forall>p \<in> set (particles (NebulaVisual_spawnParticle v bi us k)). 0 < maxLife p"
proof -
  have "0 \<le> us (5 + k)" using assms(1) by blast
  then have "0 < random_js (us (5 + k)) 3 8" by (simp add: random_js_def)
  then show ?thesis using assms(2)
    by (auto simp: NebulaVisual_spawnParticle_def Particle_new_def Let_def)
qed

declare spawnLoop.simps [simp del]

lemma spawnLoop_step:
  assumes "spawnTimer v \<ge> r" and "length (particles v) < maxParticles v"
  shows "spawnLoop v r bi us k =
         spawnLoop (NebulaVisual_spawnParticle (v\<lparr>spawnTimer := spawnTimer v - r\<rparr>) bi us k)
           r bi us (k + 11)"
  using assms by (subst spawnLoop.simps) simp

lemma spawnLoop_stop:
  assumes "\<not> (spawnTimer v \<ge> r \<and> length (particles v) < maxParticles v)"
  shows "spawnLoop v r bi us k = (v, k)"
  using assms by (subst spawnLoop.simps) auto

lemma spawnLoop_frame:
  "canvasWidth (fst (spawnLoop v r bi us k)) = canvasWidth v
   \<and> canvasHeight (fst (spawnLoop v r bi us k)) = canvasHeight v
   \<and> maxParticles (fst (spawnLoop v r bi us k)) = maxParticles v"
proof (induction v r bi us k rule: spawnLoop.induct)
  case (1 v r bi us k)
  show ?case
  proof (cases "spawnTimer v \<ge> r \<and> length (particles v) < maxParticles v")
    case True
    then have "spawnLoop v r bi us k =
         spawnLoop (NebulaVisual_spawnParticle (v\<lparr>spawnTimer := spawnTimer v - r\<rparr>) bi us k)
           r bi us (k + 11)"
      using spawnLoop_step by blast
    then show ?thesis
      using 1[OF True] spawnParticle_frame[of "v\<lparr>spawnTimer := spawnTimer v - r\<rparr>" bi us k]
      by simp
  next
    case False
    then show ?thesis by (simp add: spawnLoop_stop)
  qed
qed

lemma spawnLoop_length:
  assumes "length (particles v) \<le> maxParticles v"
  shows "length (particles (fst (spawnLoop v r bi us k))) \<le> maxParticles v"
  using assms
proof (induction v r bi us k rule: spawnLoop.induct)
  case (1 v r bi us k)
  show ?case
  proof (cases "spawnTimer v \<ge> r \<and> length (particles v) < maxParticles v")
    case True
    then have "spawnLoop v r bi us k =
         spawnLoop (NebulaVisual_spawnParticle (v\<lparr>spawnTimer := spawnTimer v - r\<rparr>) bi us k)
           r bi us (k + 11)"
      using spawnLoop_step by blast
    then show ?thesis
      using True 1(1)[OF True] spawnParticle_frame[of "v\<lparr>spawnTimer := spawnTimer v - r\<rparr>" bi us k]
      by simp
  next
    case False
    then show ?thesis using 1(2) by (simp add: spawnLoop_stop)
  qed
qed

lemma spawnLoop_maxLife:
  assumes "\<forall>n. 0 \<le> us n \<and> us n < 1" and "\<forall>p \<in> set (particles v). 0 < maxLife p"
  shows "\<forall>p \<in> set (particles (fst (spawnLoop v r bi us k))). 0 < maxLife p"
  using assms
proof (induction v r bi us k rule: spawnLoop.induct)
  case (1 v r bi us k)
  show ?case
  proof (cases "spawnTimer v \<ge> r \<and> length (particles v) < maxParticles v")
    case True
    then have step: "spawnLoop v r bi us k =
         spawnLoop (NebulaVisual_spawnParticle (v\<lparr>spawnTimer := spawnTimer v - r\<rparr>) bi us k)
           r bi us (k + 11)"
      using spawnLoop_step by blast
    have "\<forall>p \<in> set (particles (NebulaVisual_spawnParticle (v\<lparr>spawnTimer := spawnTimer v - r\<rparr>) bi us k)).
            0 < maxLife p"
      using spawnParticle_maxLife[OF 1(2), of "v\<lparr>spawnTimer := spawnTimer v - r\<rparr>" bi k] 1(3)
      by simp
    then show ?thesis using step 1(1)[OF True 1(2)] by simp
  next
    case False
    then show ?thesis using 1(3) by (simp add: spawnLoop_stop)
  qed
qed

lemma NebulaVisual_new_cap:
  "particles (NebulaVisual_new w h us k) = [] \<and> maxParticles (NebulaVisual_new w h us k) = 1500"
  by (simp add: NebulaVisual_new_def)

lemma NebulaVisual_resize_keeps_particles:
  "particles (NebulaVisual_resize v w h us k) = particles v
   \<and> maxParticles (NebulaVisual_resize v w h us k) = maxParticles v"
  by (simp add: NebulaVisual_resize_def)

text \<open>
  C5. After an update of the nebula every live particle has a positive \<open>life\<close> and a
  position inside the canvas, and there are at most \<open>maxParticles\<close> of them, which the
  constructor sets to 1500 and nothing changes. The canvas has a non-negative width
  and height, the nebula had at most \<open>maxParticles\<close> particles before, each with a
  positive \<open>maxLife\<close>, and \<open>Math.random()\<close> returns numbers from 0 up to 1.
\<close>

theorem NebulaVisual_update_live_particles:
  assumes "0 \<le> canvasWidth v" and "0 \<le> canvasHeight v"
    and "length (particles v) \<le> maxParticles v"
    and "\<forall>p \<in> set (particles v). 0 < maxLife p"
    and "\<forall>n. 0 \<le> us n \<and> us n < 1"
    and "NebulaVisual_update v i c dt us k = (v', k')"
  shows "(\<forall>p \<in> set (particles v').
            0 < life p \<and> in_canvas p (canvasWidth v') (canvasHeight v') \<and> 0 < maxLife p)
       \<and> length (particles v') \<le> maxParticles v'
       \<and> maxParticles v' = maxParticles v
       \<and> canvasWidth v' = canvasWidth v \<and> canvasHeight v' = canvasHeight v"
proof -
  define v1 where "v1 = v\<lparr>spawnTimer := spawnTimer v + dt\<rparr>"
  define v2 where "v2 = fst (if 1 + i * 2 = 0 then (v1, k)
                             else spawnLoop v1 (spawnRate v1 / (1 + i * 2)) i us k)"
  define upd where "upd = (\<lambda>p. Particle_update p dt i (canvasWidth v2) (canvasHeight v2))"
  have frame: "canvasWidth v2 = canvasWidth v \<and> canvasHeight v2 = canvasHeight v
      \<and> maxParticles v2 = maxParticles v"
    using spawnLoop_frame[of v1 "spawnRate v1 / (1 + i * 2)" i us k]
    by (simp add: v2_def v1_def)
  have len: "length (particles v2) \<le> maxParticles v"
    using spawnLoop_length[of v1 "spawnRate v1 / (1 + i * 2)" i us k] assms(3)
    by (simp add: v2_def v1_def)
  have ml: "\<forall>p \<in> set (particles v2). 0 < maxLife p"
    using spawnLoop_maxLife[OF assms(5), of v1 "spawnRate v1 / (1 + i * 2)" i k] assms(4)
    by (simp add: v2_def v1_def)
  have parts: "particles v' = map fst (filter snd (map upd (particles v2)))"
    and same: "maxParticles v' = maxParticles v2 \<and> canvasWidth v' = canvasWidth v2
      \<and> canvasHeight v' = canvasHeight v2"
    using assms(6)
    by (auto simp: NebulaVisual_update_def Let_def v2_def v1_def upd_def split: prod.splits if_splits)
  have each: "0 < life q \<and> in_canvas q (canvasWidth v') (canvasHeight v') \<and> 0 < maxLife q"
    if "q \<in> set (particles v')" for q
  proof -
    from that parts obtain p where p: "p \<in> set (particles v2)" "snd (upd p)" "q = fst (upd p)"
      by auto
    have "0 < life q" using p(2,3) Particle_update_alive by (simp add: upd_def)
    moreover have "in_canvas q (canvasWidth v') (canvasHeight v')"
      using p(3) same frame assms(1,2)
        Particle_update_in_canvas[of "canvasWidth v2" "canvasHeight v2" p dt i]
      by (simp add: upd_def)
    moreover have "0 < maxLife q"
      using p(1,3) ml Particle_update_maxLife by (simp add: upd_def)
    ultimately show ?thesis by simp
  qed
  have "length (particles v') \<le> length (particles v2)"
    using parts by simp
  then show ?thesis using each len same frame by auto
qed

theorem NebulaVisual_update_live_particles_witness:
  "(0::real) \<le> canvasWidth nebula_example \<and> 0 \<le> canvasHeight nebula_example
   \<and> length (particles nebula_example) \<le> maxParticles nebula_example
   \<and> list_all (\<lambda>p. 0 < maxLife p) (particles nebula_example)
   \<and> (\<forall>n::nat. (0::real) \<le> 1 / 2 \<and> (1::real) / 2 < 1)
   \<and> maxParticles nebula_example = 1500
   \<and> list_all (\<lambda>p. 0 < life p \<and> in_canvas p 800 600)
       (particles (fst (NebulaVisual_update nebula_example (1 / 2) 0 (3 / 100) (\<lambda>n. 1 / 2) 1200)))
   \<and> length (particles (fst (NebulaVisual_update nebula_example (1 / 2) 0 (3 / 100)
         (\<lambda>n. 1 / 2) 1200))) \<le> 1500"
proof -
  have h1: "0 \<le> canvasWidth nebula_example" and h2: "0 \<le> canvasHeight nebula_example"
    and h3: "length (particles nebula_example) \<le> maxParticles nebula_example"
    and h4: "\<forall>p \<in> set (particles nebula_example). 0 < maxLife p"
    and cap: "maxParticles nebula_example = 1500"
    and wh: "canvasWidth nebula_example = 800 \<and> canvasHeight nebula_example = 600"
    by (simp_all add: nebula_example_def NebulaVisual_new_def particle_example_def)
  have h5: "\<forall>n::nat. (0::real) \<le> (\<lambda>n. 1 / 2) n \<and> (\<lambda>n. 1 / 2) n < (1::real)"
    by simp
  have h6: "NebulaVisual_update nebula_example (1 / 2) 0 (3 / 100) (\<lambda>n. 1 / 2) 1200
      = (fst (NebulaVisual_update nebula_example (1 / 2) 0 (3 / 100) (\<lambda>n. 1 / 2) 1200),
         snd (NebulaVisual_update nebula_example (1 / 2) 0 (3 / 100) (\<lambda>n. 1 / 2) 1200))"
    by simp
  note r = NebulaVisual_update_live_particles[OF h1 h2 h3 h4 h5 h6]
  show ?thesis using r h1 h2 h3 h4 cap wh by (auto simp: list_all_iff)
qed

lemma Vector2_add_zero: "Vector2_add v \<lparr> vec_x = 0, vec_y = 0 \<rparr> = v"
  by (cases v) (simp add: Vector2_add_def)

text \<open>
  C6 (counterexample). \<open>Particle.update\<close> has no guard on the delta time. With a
  delta time of -1 s the example particle (age 0, at (10, 10), velocity (1, 0)) gets
  the age -1 and is moved 60 units to the left, out of the canvas, and wrapped to the
  right edge. With a delta time of 0 a particle of velocity (3, 4) is slowed down to
  (1.2, 1.6).
\<close>

theorem Particle_update_not_guarded:
  "age particle_example = 0
   \<and> age (fst (Particle_update particle_example (- 1) (1 / 2) 800 600)) = - 1
   \<and> age (fst (Particle_update particle_example (- 1) (1 / 2) 800 600)) \<noteq> age particle_example
   \<and> position particle_example = \<lparr> vec_x = 10, vec_y = 10 \<rparr>
   \<and> position (fst (Particle_update particle_example (- 1) (1 / 2) 800 600))
       = \<lparr> vec_x = 800, vec_y = 10 \<rparr>
   \<and> velocity (fst (Particle_update
         (particle_example\<lparr>velocity := \<lparr> vec_x = 3, vec_y = 4 \<rparr>\<rparr>) 0 (1 / 2) 800 600))
       = \<lparr> vec_x = 6 / 5, vec_y = 8 / 5 \<rparr>"
proof -
  have s25: "sqrt 25 = 5"
    by (rule real_sqrt_unique) simp_all
  show ?thesis
    by (simp add: Particle_update_def particle_example_def Let_def Vector2_limit_def
        Vector2_add_def Vector2_multiply_def Vector2_magnitude_def Vector2_normalize_def
        Vector2_divide_def s25)
qed

text \<open>
  C6 (amended). For every delta time the update adds it to the age, so that the age is
  unchanged for a delta time of 0 only; the new velocity does not depend on the delta
  time: it is the old one plus the acceleration, limited to the length 2, so that it
  is unchanged when the acceleration is zero and the speed at most 2; and for a delta
  time of 0 the position of a particle inside the canvas is unchanged.
\<close>

theorem Particle_update_motion:
  assumes "Particle_update p deltaTime bi w h = (p', alive)"
  shows "age p' = age p + deltaTime
       \<and> velocity p' = Vector2_limit (Vector2_add (velocity p) (acceleration p)) 2
       \<and> (acceleration p = \<lparr> vec_x = 0, vec_y = 0 \<rparr> \<and> Vector2_magnitude (velocity p) \<le> 2
            \<longrightarrow> velocity p' = velocity p)
       \<and> (deltaTime = 0 \<and> in_canvas p w h \<longrightarrow> position p' = position p)"
proof -
  have a: "age p' = age p + deltaTime"
    and v: "velocity p' = Vector2_limit (Vector2_add (velocity p) (acceleration p)) 2"
    using assms by (auto simp: Particle_update_def Let_def)
  have v0: "velocity p' = velocity p"
    if "acceleration p = \<lparr> vec_x = 0, vec_y = 0 \<rparr>" and "Vector2_magnitude (velocity p) \<le> 2"
    using v that by (simp add: Vector2_limit_def Vector2_add_zero Let_def)
  have p0: "position p' = position p" if "deltaTime = 0" and "in_canvas p w h"
    using assms that
    by (auto simp: Particle_update_def Let_def in_canvas_def Vector2_add_def Vector2_multiply_def)
  show ?thesis using a v v0 p0 by blast
qed

theorem Particle_update_motion_witness:
  "acceleration particle_example = \<lparr> vec_x = 0, vec_y = 0 \<rparr>
   \<and> Vector2_magnitude (velocity particle_example) \<le> 2
   \<and> in_canvas particle_example 800 600
   \<and> age (fst (Particle_update particle_example 0 (1 / 2) 800 600)) = age particle_example + 0
   \<and> velocity (fst (Particle_update particle_example 0 (1 / 2) 800 600))
       = velocity particle_example
   \<and> position (fst (Particle_update particle_example 0 (1 / 2) 800 600))
       = position particle_example"
proof -
  have h: "Particle_update particle_example 0 (1 / 2) 800 600
      = (fst (Particle_update particle_example 0 (1 / 2) 800 600),
         snd (Particle_update particle_example 0 (1 / 2) 800 600))"
    by simp
  have c: "acceleration particle_example = \<lparr> vec_x = 0, vec_y = 0 \<rparr>"
    "Vector2_magnitude (velocity particle_example) \<le> 2"
    "in_canvas particle_example 800 600"
    by (simp_all add: particle_example_def Vector2_magnitude_def in_canvas_def)
  show ?thesis using Particle_update_motion[OF h] c by auto
qed

section \<open>Properties of the audio engine\<close>

lemma BreathingSynth_new_start:
  "\<exists>s. BreathingSynth_start BreathingSynth_new now = Inr s \<and> isPlaying s
       \<and> active_generators s = [droneOsc s, breathOsc s, shimmerOsc s]"
  by (simp add: BreathingSynth_start_def BreathingSynth_new_def BreathingSynth_init_def
      osc_start_def active_generators_def)

text \<open>
  C7 (counterexample). After \<open>setVolume(0.8)\<close> the master gain is driven to 0.8;
  \<open>mute()\<close> and then \<open>unmute()\<close> leave it driven to 0.3, not to the level before.
\<close>

theorem unmute_forgets_volume:
  "scheduled_target (masterGain (BreathingSynth_setVolume BreathingSynth_new 0.8 0)) = 0.8
   \<and> scheduled_target (masterGain
         (BreathingSynth_unmute
            (BreathingSynth_mute (BreathingSynth_setVolume BreathingSynth_new 0.8 0) 1) 2)) = 0.3
   \<and> scheduled_target (masterGain
         (BreathingSynth_unmute
            (BreathingSynth_mute (BreathingSynth_setVolume BreathingSynth_new 0.8 0) 1) 2))
       \<noteq> scheduled_target (masterGain (BreathingSynth_setVolume BreathingSynth_new 0.8 0))"
  by (simp add: BreathingSynth_unmute_def BreathingSynth_mute_def BreathingSynth_setVolume_def
      BreathingSynth_new_def BreathingSynth_init_def scheduled_target_def schedule_def
      new_param_def clamp_def)

text \<open>
  C7 (amended). \<open>mute()\<close> makes one call, \<open>setTargetAtTime(0, now, 0.1)\<close> on the master
  gain, which drives it to 0, and changes nothing else: the breath tone's frequency and
  gain, the filter cutoff, the shimmer's gain and frequency and every other field are
  as before. \<open>unmute()\<close> drives the master gain to 0.3, the level of \<open>_init\<close> and of
  the fade-in of \<open>start\<close>, whatever the level was before. \<open>toggleMute\<close> of the engine
  calls the one or the other.
\<close>

theorem mute_frame:
  "BreathingSynth_mute s now
     = s\<lparr>masterGain := schedule (masterGain s) [SetTargetAtTime 0 now 0.1]\<rparr>
   \<and> scheduled_target (masterGain (BreathingSynth_mute s now)) = 0
   \<and> breathOsc (BreathingSynth_mute s now) = breathOsc s
   \<and> breathGain (BreathingSynth_mute s now) = breathGain s
   \<and> filter_frequency (BreathingSynth_mute s now) = filter_frequency s
   \<and> shimmerGain (BreathingSynth_mute s now) = shimmerGain s
   \<and> shimmerOsc (BreathingSynth_mute s now) = shimmerOsc s
   \<and> targetBreathFreq (BreathingSynth_mute s now) = targetBreathFreq s
   \<and> currentBreathFreq (BreathingSynth_mute s now) = currentBreathFreq s
   \<and> BreathingSynth_unmute s now
     = s\<lparr>masterGain := schedule (masterGain s) [SetTargetAtTime 0.3 now 0.1]\<rparr>
   \<and> scheduled_target (masterGain (BreathingSynth_unmute s now)) = 0.3
   \<and> AudioEngine_toggleMute (e\<lparr>engine_synth := Some s, isMuted := False\<rparr>) now
     = (e\<lparr>engine_synth := Some (BreathingSynth_mute s now), isMuted := True\<rparr>, True)
   \<and> AudioEngine_toggleMute (e\<lparr>engine_synth := Some s, isMuted := True\<rparr>) now
     = (e\<lparr>engine_synth := Some (BreathingSynth_unmute s now), isMuted := False\<rparr>, False)"
  by (simp add: BreathingSynth_unmute_def BreathingSynth_mute_def BreathingSynth_setVolume_def
      scheduled_target_def schedule_def clamp_def AudioEngine_toggleMute_def Let_def)

lemma synth_started_eq:
  "BreathingSynth_start BreathingSynth_new 0 = Inr synth_started \<and> isPlaying synth_started
   \<and> length (active_generators synth_started) = 3"
  by (simp add: synth_started_def BreathingSynth_start_def BreathingSynth_new_def
      BreathingSynth_init_def osc_start_def active_generators_def)

lemma engine_started_eq:
  "AudioEngine_start AudioEngine_new (Some Active) 0 = Inr engine_started
   \<and> engine_isPlaying engine_started \<and> isInitialized engine_started
   \<and> ctx engine_started = Some Active \<and> engine_synth engine_started = Some synth_started"
  by (simp add: engine_started_def synth_started_def AudioEngine_start_def AudioEngine_init_def
      AudioEngine_new_def BreathingSynth_start_def BreathingSynth_new_def
      BreathingSynth_init_def osc_start_def Let_def)

text \<open>
  \<open>start\<close> on a synthesizer that is playing changes nothing, so that it starts no
  oscillator and the ones sounding are the same as before; \<open>stop\<close> and \<open>update\<close> on
  one that is not playing change nothing. The same for the engine: \<open>start\<close> while its
  flag says playing leaves its synthesizer as it is (it only resumes a suspended
  context), \<open>stop\<close> and \<open>update\<close> while stopped change nothing.
\<close>

lemma audio_misuse_noop:
  "(isPlaying s \<longrightarrow> BreathingSynth_start s now = Inr s)
   \<and> (\<not> isPlaying s \<longrightarrow>
         BreathingSynth_stop s now level = s \<and> BreathingSynth_update s i ph now = s)
   \<and> (engine_isPlaying e \<and> isInitialized e \<and> ctx e \<noteq> None \<longrightarrow>
         (\<exists>e'. AudioEngine_start e created now = Inr e'
            \<and> engine_synth e' = engine_synth e \<and> engine_isPlaying e'
            \<and> (ctx e \<noteq> Some Suspended \<longrightarrow> e' = e)))
   \<and> (\<not> engine_isPlaying e \<longrightarrow>
         AudioEngine_stop e now level = e \<and> AudioEngine_update e i ph now = e)"
proof -
  have a: "isPlaying s \<Longrightarrow> BreathingSynth_start s now = Inr s"
    by (simp add: BreathingSynth_start_def)
  have b: "\<not> isPlaying s \<Longrightarrow>
      BreathingSynth_stop s now level = s \<and> BreathingSynth_update s i ph now = s"
    by (simp add: BreathingSynth_stop_def BreathingSynth_update_def)
  have c: "\<exists>e'. AudioEngine_start e created now = Inr e'
            \<and> engine_synth e' = engine_synth e \<and> engine_isPlaying e'
            \<and> (ctx e \<noteq> Some Suspended \<longrightarrow> e' = e)"
    if "engine_isPlaying e" and "isInitialized e" and "ctx e \<noteq> None"
    using that
    by (auto simp: AudioEngine_start_def Let_def split: option.splits)
  have d: "\<not> engine_isPlaying e \<Longrightarrow>
      AudioEngine_stop e now level = e \<and> AudioEngine_update e i ph now = e"
    by (simp add: AudioEngine_stop_def AudioEngine_update_def split: option.splits)
  show ?thesis using a b c d by blast
qed

text \<open>
  Two calls of \<open>start\<close> in a row, on a new synthesizer and on a new engine: the second
  changes nothing and three oscillators are sounding.
\<close>

lemma start_twice:
  "BreathingSynth_start BreathingSynth_new 0 = Inr synth_started
   \<and> BreathingSynth_start synth_started 1 = Inr synth_started
   \<and> length (active_generators synth_started) = 3
   \<and> AudioEngine_start AudioEngine_new (Some Active) 0 = Inr engine_started
   \<and> AudioEngine_start engine_started None 1 = Inr engine_started
   \<and> engine_synth engine_started = Some synth_started"
  using audio_misuse_noop[of synth_started 1 "0.3" "0.5" INHALE engine_started None]
    synth_started_eq engine_started_eq
  by auto

text \<open>
  C8 (code defect). \<open>stop\<close> of the engine clears the engine's flag at once, while the
  synthesizer keeps its own flag until the timer of its \<open>stop\<close> fires, 1.1 s later.
  An engine that is stopped and started again within that time (a pause and a quick
  resume) has its flag set by a \<open>start\<close> that did nothing to the synthesizer, which
  was still playing; then the timer stops the oscillators and creates new ones that
  are never started. From then on the engine's flag says playing, \<open>start\<close> changes
  nothing, \<open>update\<close> changes nothing, and no oscillator is sounding: not one
  generator set is active.
\<close>

theorem quick_resume_no_generator:
  "engine_isPlaying engine_started
   \<and> map_option (\<lambda>s. length (active_generators s)) (engine_synth engine_started) = Some 3
   \<and> \<not> engine_isPlaying engine_stopped
   \<and> AudioEngine_start engine_stopped None 5.5 = Inr engine_resumed
   \<and> engine_synth engine_resumed = engine_synth engine_stopped
   \<and> AudioEngine_stop_timeout engine_resumed = Inr engine_after_timer
   \<and> engine_isPlaying engine_after_timer
   \<and> AudioEngine_start engine_after_timer None 7 = Inr engine_after_timer
   \<and> AudioEngine_update engine_after_timer 0.5 INHALE 7 = engine_after_timer
   \<and> map_option isPlaying (engine_synth engine_after_timer) = Some False
   \<and> map_option active_generators (engine_synth engine_after_timer) = Some []"
  by (simp add: engine_after_timer_def engine_resumed_def engine_stopped_def engine_started_def
      AudioEngine_stop_timeout_def AudioEngine_start_def AudioEngine_stop_def
      AudioEngine_update_def AudioEngine_init_def AudioEngine_new_def
      BreathingSynth_start_def BreathingSynth_stop_def BreathingSynth_stop_timeout_def
      BreathingSynth_update_def BreathingSynth_new_def BreathingSynth_init_def
      osc_start_def osc_stop_def active_generators_def Let_def)

section \<open>Properties of the palettes\<close>







declare to_hex.simps [simp del]














lemma unknown_name_falls_back:
  assumes "ColorPalettes_get name = None"
  shows "getColorFromPalette name t = getColorFromPalette ''deepSpace'' t"
  using assms
  by (simp add: getColorFromPalette_def ColorPalettes_get_def ColorPalettes_def)

lemma inherited_name_undefined:
  assumes "map_of ColorPalettes name = None" and "map_of Object_prototype name = Some v"
  shows "getColorFromPalette name t = None"
proof -
  have g: "ColorPalettes_get name = Some v"
    using assms by (simp add: ColorPalettes_get_def)
  have "v = PrototypeObject \<or> (\<exists>n. v = Function n)"
    using assms(2) by (auto simp: Object_prototype_def split: if_splits)
  then show ?thesis
    using g
    by (auto simp: getColorFromPalette_def value_length_def value_index_def lerpColor_def Let_def)
qed

text \<open>
  C10 (code defect). A name that is no key of \<open>ColorPalettes\<close>, own or inherited,
  is sampled from the palette deepSpace (the first lemma above). A name that
  \<open>ColorPalettes\<close> inherits from \<open>Object.prototype\<close> is not: the value found is truthy,
  the fallback is not taken, and the result is \<open>undefined\<close> (the second lemma above). For
  the name \<open>constructor\<close> and \<open>t = 0.5\<close> the result is \<open>undefined\<close>, where the
  palette deepSpace gives \<open>#2d1b69\<close>.
\<close>

theorem inherited_name_no_fallback:
  "map_of ColorPalettes ''constructor'' = None
   \<and> ColorPalettes_get ''constructor'' = Some (Function 1)
   \<and> getColorFromPalette ''constructor'' (1 / 2) = None
   \<and> getColorFromPalette ''deepSpace'' (1 / 2) = Some ''#2d1b69''"
  by (simp add: getColorFromPalette_def ColorPalettes_get_def ColorPalettes_def
      Object_prototype_def value_length_def value_index_def lerpColor_def hexToRgb_def
      hex_digit_value_def Let_def lerp_def js_round_def rgbToHex_def toString16_def js_shl_def
      hex_char_def to_hex.simps)

end
